theory Spec2Isabelle
  imports Main
begin

section \<open>The pm-node agent (src/index.js)\<close>

text \<open>
  The agent is an event-driven object: its public methods (\<open>connect\<close>, \<open>spawn\<close>,
  \<open>kill\<close>, \<open>getProcesses\<close>) and the callbacks it registers on sockets, multiplexers,
  timers and child processes all run to completion on one thread. Each of them is a
  function from the world before the call to the world after it; a run of the agent is a
  list of such calls and callbacks, applied in order.

  What the operating system and the libraries decide (whether launching a process throws,
  which pid it gets, which error a child reports, with which code it closes, what a
  handle does with a signal, what the usage lookups answer and in which order) is an
  argument of the function concerned.

  Calls to \<open>debug\<close> write to a diagnostic stream only and are left out, as are
  \<open>getInfo\<close> (it only reads facts from \<open>os\<close>), the reply handler of the heartbeat
  call, the handlers chained to the reconnecting \<open>connect\<close> of the heartbeat and the
  failure handler of the \<open>onProcessEnd\<close> call (all of them only call \<open>debug\<close>).
  An event for which no listener is registered (a second 'connect' of a socket, an event
  of a child that does not exist) changes nothing.
\<close>

subsection \<open>Values\<close>

text \<open>
  An error object. \<open>Error m\<close> is \<open>new Error(m)\<close> or an error handed over by the
  runtime; \<open>NullDeref p\<close> is the TypeError raised by reading property \<open>p\<close> of
  \<open>null\<close> or \<open>undefined\<close>.
\<close>
datatype error = Error string | NullDeref string

text \<open>A process object: the global \<open>process\<close>, or the n-th ChildProcess created.\<close>
datatype handle = Process | ChildProcess nat

text \<open>The code handed to a 'close' listener: a number, or \<open>null\<close> after a signal.\<close>
datatype exitcode = ExitNull | Exit int

text \<open>
  A procInfo object. A property that is absent or \<open>undefined\<close> is \<open>None\<close>;
  \<open>protected\<close> is read for its truthiness only.
\<close>
record procInfo =
  name :: string
  pid :: "nat option"
  u_proc :: "handle option"
  protected :: bool
  coreId :: "string option"
  promise :: "string option"
  code :: "exitcode option"
  error :: "error option"

text \<open>
  An entry of the registry is a reference to a procInfo object: its address and its
  contents. No procInfo object is written to after its creation, so the contents travel
  with the address; \<open>indexOf\<close> compares addresses.
\<close>
type_synonym procRef = "nat \<times> procInfo"

text \<open>The result of the usage lookup (memory, cpu), opaque to the agent.\<close>
type_synonym usage = "nat \<times> nat"

datatype "value" =
    VUndefined
  | VError error
  | VInfo procInfo
  | VProcesses "(procInfo \<times> usage) list"

datatype pstate = Pending | Fulfilled "value" | Rejected error

text \<open>A deferred of Q: the state of its promise and the progress values notified so far.\<close>
record deferred =
  d_state :: pstate
  d_progress :: "value list"

text \<open>
  A promise handed to a caller: \<open>new Q(v)\<close> for a value \<open>v\<close> that is not a promise
  (Q wraps it in a promise fulfilled with \<open>v\<close>), the promise of the deferred that
  \<open>connect\<close> made for the n-th socket, or the promise of the deferred that \<open>spawn\<close>
  made for the n-th child.
\<close>
datatype promise = Q_new "value" | ConnectPromise nat | SpawnPromise nat

text \<open>An outbound RPC call.\<close>
datatype rpc_call = Loop nat | OnProcessEnd procInfo

text \<open>
  A socket made by \<open>connect\<close>: the deferred of that call and the three listeners
  registered with \<open>once\<close> (still registered or not).
\<close>
record socket =
  s_deferred :: deferred
  s_onConnect :: bool
  s_onError :: bool
  s_onClose :: bool

text \<open>
  What the listeners that \<open>spawn\<close> registers on a child close over: \<open>name\<close>,
  \<open>procInfo\<close>, \<open>masterRpc\<close>, \<open>lastProcError\<close>, \<open>opts.promise\<close> and
  \<open>deferred\<close>; then whether 'close' has been emitted, whether the \<open>nextTick\<close>
  callback is still due, and the labels of the streams the outputs are piped to.
\<close>
record child =
  c_name :: string
  c_procInfo :: procRef
  c_masterRpc :: "nat option"
  c_lastProcError :: "error option"
  c_promise :: string
  c_deferred :: deferred
  c_closed :: bool
  c_tick :: bool
  c_stdout :: "(nat \<times> string) option"
  c_stderr :: "(nat \<times> string) option"

text \<open>
  The agent's fields (\<open>serverHost\<close> to \<open>pingInterval\<close>) and the runtime around it:
  the next free address, the sockets, multiplexers
  (error listener still registered or not), RPC channels and children created so far,
  and the effects on the outside: RPC calls issued (with the channel), signals delivered,
  processes asked of the operating system.
\<close>
record world =
  serverHost :: string
  serverPort :: nat
  processes :: "procRef list"
  rawSocket :: "nat option"
  mux :: "nat option"
  rpc :: "nat option"
  pingInterval :: "nat option"
  nextAddr :: nat
  sockets :: "socket list"
  muxes :: "bool list"
  rpcs :: nat
  children :: "child list"
  rpcCalls :: "(nat \<times> rpc_call) list"
  signals :: "(handle \<times> string) list"
  osSpawns :: "(string \<times> string list) list"

subsection \<open>Private functions and the constructor\<close>

text \<open>A string option in a boolean position: absent and the empty string are falsy.\<close>
fun truthy :: "string option \<Rightarrow> bool" where
  "truthy None = False"
| "truthy (Some s) = (s \<noteq> [])"

definition toPublicProcInfo :: "procInfo \<Rightarrow> procInfo" where
  "toPublicProcInfo procInfo =
     (let publicInfo = procInfo
      in if u_proc publicInfo \<noteq> None then publicInfo\<lparr>u_proc := None\<rparr> else publicInfo)"

record pmnode_opts =
  o_serverHost :: string
  o_serverPort :: nat

text \<open>The agent's own entry, at address 0.\<close>
definition selfInfo :: "nat \<Rightarrow> procRef" where
  "selfInfo p =
     (0, \<lparr>name = ''pm-node'', pid = Some p, u_proc = Some Process, protected = True,
          coreId = None, promise = None, code = None, error = None\<rparr>)"

definition PMNode :: "pmnode_opts \<Rightarrow> nat \<Rightarrow> world" where
  "PMNode opts p =
     \<lparr>serverHost = o_serverHost opts, serverPort = o_serverPort opts,
      processes = [selfInfo p],
      rawSocket = None, mux = None, rpc = None, pingInterval = None,
      nextAddr = 1, sockets = [], muxes = [], rpcs = 0, children = [],
      rpcCalls = [], signals = [], osSpawns = []\<rparr>"

subsection \<open>The connection\<close>

record connect_opts =
  co_ping :: "bool option"
  co_pingInterval :: "nat option"

definition no_connect_opts :: connect_opts where
  "no_connect_opts = \<lparr>co_ping = None, co_pingInterval = None\<rparr>"

definition connect :: "connect_opts \<Rightarrow> world \<Rightarrow> promise \<times> world" where
  "connect opts w =
     (let ping = (case co_ping opts of None \<Rightarrow> True | Some b \<Rightarrow> b);
          interval = (case co_pingInterval opts of None \<Rightarrow> 30 * 1000 | Some n \<Rightarrow> n)
      in if rpc w \<noteq> None \<or> rawSocket w \<noteq> None
         then (Q_new (VError (Error ''client is conencted'')), w)
         else
           let s = length (sockets w);
               w1 = w\<lparr>rawSocket := Some s,
                      sockets := sockets w @
                        [\<lparr>s_deferred = \<lparr>d_state = Pending, d_progress = []\<rparr>,
                          s_onConnect = True, s_onError = True, s_onClose = True\<rparr>]\<rparr>;
               w2 = (if pingInterval w1 = None \<and> ping
                     then w1\<lparr>pingInterval := Some interval\<rparr> else w1)
           in (ConnectPromise s, w2))"

text \<open>Settling a deferred has an effect only while its promise is pending.\<close>
definition d_resolve :: "value \<Rightarrow> deferred \<Rightarrow> deferred" where
  "d_resolve v d = (if d_state d = Pending then d\<lparr>d_state := Fulfilled v\<rparr> else d)"

definition d_reject :: "error \<Rightarrow> deferred \<Rightarrow> deferred" where
  "d_reject e d = (if d_state d = Pending then d\<lparr>d_state := Rejected e\<rparr> else d)"

definition d_notify :: "value \<Rightarrow> deferred \<Rightarrow> deferred" where
  "d_notify v d = (if d_state d = Pending then d\<lparr>d_progress := d_progress d @ [v]\<rparr> else d)"

definition onRawSocketConnection :: "world \<Rightarrow> world" where
  "onRawSocketConnection w =
     (if rawSocket w = None then w
      else if mux w \<noteq> None then w
      else if rpc w \<noteq> None then w
      else w\<lparr>mux := Some (length (muxes w)), muxes := muxes w @ [True],
             rpc := Some (rpcs w), rpcs := rpcs w + 1\<rparr>)"

definition onRawSocketClose :: "world \<Rightarrow> world" where
  "onRawSocketClose w = w\<lparr>mux := None, rpc := None, rawSocket := None\<rparr>"

definition onMuxError :: "error \<Rightarrow> world \<Rightarrow> world" where
  "onMuxError err w = w\<lparr>mux := None, rpc := None, rawSocket := None\<rparr>"

text \<open>
  The 'connect' event of socket \<open>s\<close>: the two listeners registered once, in the order
  of their registration.
\<close>
definition socketConnect :: "nat \<Rightarrow> world \<Rightarrow> world" where
  "socketConnect s w =
     (if s < length (sockets w) \<and> s_onConnect (sockets w ! s)
      then
        let w1 = onRawSocketConnection w;
            sk = sockets w1 ! s
        in w1\<lparr>sockets := (sockets w1)
                [s := sk\<lparr>s_onConnect := False,
                         s_deferred := d_resolve VUndefined (s_deferred sk)\<rparr>]\<rparr>
      else w)"

definition socketError :: "nat \<Rightarrow> error \<Rightarrow> world \<Rightarrow> world" where
  "socketError s err w =
     (if s < length (sockets w) \<and> s_onError (sockets w ! s)
      then
        let sk = sockets w ! s
        in w\<lparr>sockets := (sockets w)
               [s := sk\<lparr>s_onError := False,
                        s_deferred := d_reject err (s_deferred sk)\<rparr>]\<rparr>
      else w)"

definition socketClose :: "nat \<Rightarrow> world \<Rightarrow> world" where
  "socketClose s w =
     (if s < length (sockets w) \<and> s_onClose (sockets w ! s)
      then
        let w1 = onRawSocketClose w
        in w1\<lparr>sockets := (sockets w1)[s := (sockets w1 ! s)\<lparr>s_onClose := False\<rparr>]\<rparr>
      else w)"

definition muxError :: "nat \<Rightarrow> error \<Rightarrow> world \<Rightarrow> world" where
  "muxError m err w =
     (if m < length (muxes w) \<and> muxes w ! m
      then (onMuxError err w)\<lparr>muxes := (muxes w)[m := False]\<rparr>
      else w)"

text \<open>A tick of the heartbeat timer, at clock reading \<open>time\<close>.\<close>
definition onPingInterval :: "nat \<Rightarrow> world \<Rightarrow> world" where
  "onPingInterval time w =
     (if pingInterval w = None then w
      else case rpc w of
        Some r \<Rightarrow> w\<lparr>rpcCalls := rpcCalls w @ [(r, Loop time)]\<rparr>
      | None \<Rightarrow> snd (connect no_connect_opts w))"

subsection \<open>Helpers from the libraries\<close>

text \<open>\<open>path.basename\<close> on POSIX: trailing slashes dropped, then what follows the last slash.\<close>
definition basename :: "string \<Rightarrow> string" where
  "basename p =
     rev (takeWhile (\<lambda>c. c \<noteq> CHR ''/'') (dropWhile (\<lambda>c. c = CHR ''/'') (rev p)))"

text \<open>A number as JavaScript appends it to a string.\<close>
fun show_nat :: "nat \<Rightarrow> string" where
  "show_nat n =
     (if n < 10 then [''0123456789'' ! n]
      else show_nat (n div 10) @ [''0123456789'' ! (n mod 10)])"

declare show_nat.simps [simp del]

definition show_int :: "int \<Rightarrow> string" where
  "show_int i = (if i < 0 then CHR ''-'' # show_nat (nat (- i)) else show_nat (nat i))"

fun show_code :: "exitcode \<Rightarrow> string" where
  "show_code ExitNull = ''null''"
| "show_code (Exit i) = show_int i"

text \<open>\<open>Array.prototype.indexOf\<close> on the registry: the first index holding that object.\<close>
fun indexOf :: "procRef list \<Rightarrow> procRef \<Rightarrow> nat option" where
  "indexOf [] r = None"
| "indexOf (x # xs) r =
     (if fst x = fst r then Some 0 else map_option Suc (indexOf xs r))"

text \<open>\<open>splice(index, 1)\<close>.\<close>
definition splice1 :: "nat \<Rightarrow> 'a list \<Rightarrow> 'a list" where
  "splice1 i xs = take i xs @ drop (Suc i) xs"

text \<open>\<open>_.findWhere(list, {pid: p})\<close>: the first entry whose pid is the number \<open>p\<close>.\<close>
fun findWhere_pid :: "procRef list \<Rightarrow> nat \<Rightarrow> procRef option" where
  "findWhere_pid [] p = None"
| "findWhere_pid (x # xs) p = (if pid (snd x) = Some p then Some x else findWhere_pid xs p)"

text \<open>
  \<open>_.extend({code: code}, procInfo)\<close>: a copy of \<open>procInfo\<close> with the property
  \<open>code\<close> added, unless \<open>procInfo\<close> has one of its own.
\<close>
definition extend_code :: "exitcode \<Rightarrow> procInfo \<Rightarrow> procInfo" where
  "extend_code cd procInfo =
     (case code procInfo of None \<Rightarrow> procInfo\<lparr>code := Some cd\<rparr> | Some _ \<Rightarrow> procInfo)"

subsection \<open>spawn\<close>

record spawn_opts =
  o_command :: "string option"
  o_args :: "string list option"
  o_name :: "string option"
  o_coreId :: "string option"
  o_promise :: "string option"
  o_stdout :: "string option"
  o_stderr :: "string option"

text \<open>
  What \<open>child_process.spawn\<close> does: it throws, or returns a ChildProcess whose
  \<open>pid\<close> is a number, or \<open>undefined\<close> when the process could not be started.
\<close>
datatype launch = LaunchThrows error | Launched "nat option"

datatype spawn_outcome = Returned promise | Threw error

definition upd_child :: "nat \<Rightarrow> (child \<Rightarrow> child) \<Rightarrow> world \<Rightarrow> world" where
  "upd_child c f w = w\<lparr>children := (children w)[c := f (children w ! c)]\<rparr>"

text \<open>The body of \<open>spawn\<close> after the \<open>try\<close>, for a ChildProcess with pid \<open>p\<close>.\<close>
definition spawn_launched ::
  "nat option \<Rightarrow> string \<Rightarrow> string \<Rightarrow> spawn_opts \<Rightarrow> world \<Rightarrow> spawn_outcome \<times> world" where
  "spawn_launched p nm mode opts w =
     (let h = length (children w);
          procInfo = (nextAddr w,
            \<lparr>name = nm, pid = p, u_proc = Some (ChildProcess h), protected = False,
             coreId = o_coreId opts, promise = Some mode, code = None, error = None\<rparr>);
          w1 = w\<lparr>processes := processes w @ [procInfo], nextAddr := nextAddr w + 1,
                 children := children w @
                   [\<lparr>c_name = nm, c_procInfo = procInfo, c_masterRpc = rpc w,
                     c_lastProcError = None, c_promise = mode,
                     c_deferred = \<lparr>d_state = Pending, d_progress = []\<rparr>,
                     c_closed = False, c_tick = False,
                     c_stdout = None, c_stderr = None\<rparr>]\<rparr>
      in if mode = ''creation''
         then (Returned (SpawnPromise h),
               upd_child h (\<lambda>ch. ch\<lparr>c_deferred :=
                 d_resolve (VInfo (toPublicProcInfo (snd procInfo))) (c_deferred ch)\<rparr>) w1)
         else
           case (if truthy (o_stdout opts)
                 then (case (mux w1, o_stdout opts) of
                         (Some m, Some l) \<Rightarrow>
                           Inr (upd_child h (\<lambda>ch. ch\<lparr>c_stdout := Some (m, l)\<rparr>) w1)
                       | _ \<Rightarrow> Inl (NullDeref ''createStream''))
                 else Inr w1) of
             Inl e \<Rightarrow> (Threw e, w1)
           | Inr w2 \<Rightarrow>
               (case (if truthy (o_stderr opts)
                      then (case (mux w2, o_stderr opts) of
                              (Some m, Some l) \<Rightarrow>
                                Inr (upd_child h (\<lambda>ch. ch\<lparr>c_stderr := Some (m, l)\<rparr>) w2)
                            | _ \<Rightarrow> Inl (NullDeref ''createStream''))
                      else Inr w2) of
                  Inl e \<Rightarrow> (Threw e, w2)
                | Inr w3 \<Rightarrow>
                    (Returned (SpawnPromise h),
                     upd_child h (\<lambda>ch. ch\<lparr>c_tick := True\<rparr>) w3)))"

text \<open>\<open>opts.name || path.basename(opts.command)\<close>.\<close>
definition spawn_name :: "spawn_opts \<Rightarrow> string" where
  "spawn_name opts =
     (let command = (case o_command opts of Some c \<Rightarrow> c | None \<Rightarrow> [])
      in case o_name opts of
           Some n \<Rightarrow> if n \<noteq> [] then n else basename command
         | None \<Rightarrow> basename command)"

definition spawn :: "launch \<Rightarrow> spawn_opts \<Rightarrow> world \<Rightarrow> spawn_outcome \<times> world" where
  "spawn l opts w =
     (let args = (case o_args opts of None \<Rightarrow> [] | Some a \<Rightarrow> a);
          mode = (case o_promise opts of None \<Rightarrow> ''creation'' | Some m \<Rightarrow> m)
      in if \<not> truthy (o_command opts)
         then (Returned (Q_new (VError (Error ''command is required''))), w)
         else if mode \<notin> set [''creation'', ''execution'']
         then (Returned (Q_new (VError
                 (Error (''promise type '' @ mode @ '' is not supported'')))), w)
         else
           let command = (case o_command opts of Some c \<Rightarrow> c | None \<Rightarrow> []);
               w1 = w\<lparr>osSpawns := osSpawns w @ [(command, args)]\<rparr>
           in case l of
                LaunchThrows err \<Rightarrow> (Returned (Q_new (VError err)), w1)
              | Launched p \<Rightarrow> spawn_launched p (spawn_name opts) mode opts w1)"

text \<open>The 'error' listener of child \<open>c\<close>.\<close>
definition procOnError :: "nat \<Rightarrow> error \<Rightarrow> world \<Rightarrow> world" where
  "procOnError c err w =
     (if c < length (children w)
      then upd_child c (\<lambda>ch. ch\<lparr>c_lastProcError := Some err\<rparr>) w
      else w)"

text \<open>The 'close' listener of child \<open>c\<close>; a ChildProcess emits 'close' once.\<close>
definition procOnClose :: "nat \<Rightarrow> exitcode \<Rightarrow> world \<Rightarrow> world" where
  "procOnClose c cd w =
     (if c < length (children w) \<and> \<not> c_closed (children w ! c)
      then
        let ch = children w ! c;
            procInfo = c_procInfo ch;
            ps = (case indexOf (processes w) procInfo of
                    Some index \<Rightarrow> splice1 index (processes w)
                  | None \<Rightarrow> processes w);
            procFinInfo0 = extend_code cd (snd procInfo);
            procFinInfo = (case c_lastProcError ch of
                             Some e \<Rightarrow> procFinInfo0\<lparr>error := Some e\<rparr>
                           | None \<Rightarrow> procFinInfo0);
            calls = (case c_masterRpc ch of
                       Some r \<Rightarrow> rpcCalls w @ [(r, OnProcessEnd (toPublicProcInfo procFinInfo))]
                     | None \<Rightarrow> rpcCalls w);
            d = (if c_promise ch = ''execution''
                 then (case c_lastProcError ch of
                         Some e \<Rightarrow> d_reject e (c_deferred ch)
                       | None \<Rightarrow>
                           if cd \<noteq> Exit 0
                           then d_reject
                                  (Error (c_name ch @ '' process exited with code: '' @
                                          show_code cd))
                                  (c_deferred ch)
                           else d_resolve (VInfo (toPublicProcInfo procFinInfo)) (c_deferred ch))
                 else c_deferred ch)
        in w\<lparr>processes := ps, rpcCalls := calls,
              children := (children w)[c := ch\<lparr>c_deferred := d, c_closed := True\<rparr>]\<rparr>
      else w)"

text \<open>The callback handed to \<open>process.nextTick\<close> for child \<open>c\<close>.\<close>
definition spawnNextTick :: "nat \<Rightarrow> world \<Rightarrow> world" where
  "spawnNextTick c w =
     (if c < length (children w) \<and> c_tick (children w ! c)
      then upd_child c (\<lambda>ch. ch\<lparr>c_tick := False,
             c_deferred :=
               (if c_lastProcError ch \<noteq> None then c_deferred ch
                else d_notify (VInfo (toPublicProcInfo (snd (c_procInfo ch)))) (c_deferred ch))\<rparr>) w
      else w)"

text \<open>
  The 'error' listener of the stream an output of child \<open>c\<close> is piped to
  (\<open>True\<close> for stdout): the pipe is taken down.
\<close>
definition pipeOnError :: "nat \<Rightarrow> bool \<Rightarrow> world \<Rightarrow> world" where
  "pipeOnError c out w =
     (if c < length (children w)
      then upd_child c (\<lambda>ch. if out then ch\<lparr>c_stdout := None\<rparr> else ch\<lparr>c_stderr := None\<rparr>) w
      else w)"

subsection \<open>kill and getProcesses\<close>

record kill_opts =
  k_pid :: "nat option"
  k_signal :: "string option"

text \<open>
  What \<open>procInfo._proc.kill(signal)\<close> does: it throws (an unknown signal name), or it
  returns whether the signal was delivered (\<open>false\<close> for a process that has exited
  already). An 'error' the handle emits is an event of its own (\<open>ProcError\<close> below).
\<close>
datatype kill_result = KillThrows error | KillReturns bool

datatype kill_outcome = KillReturned pstate | KillThrew error

text \<open>
  \<open>kill\<close>, given what the handle's \<open>kill\<close> does should it be called. \<open>kill\<close>
  settles its deferred before it returns: the result is the state of the promise
  returned, or the exception that escapes.
\<close>
definition kill :: "kill_result \<Rightarrow> kill_opts \<Rightarrow> world \<Rightarrow> kill_outcome \<times> world" where
  "kill k opts w =
     (let signal = (case k_signal opts of None \<Rightarrow> ''SIGTERM'' | Some s \<Rightarrow> s)
      in case k_pid opts of
           None \<Rightarrow> (KillReturned (Rejected (Error ''pid is required'')), w)
         | Some p \<Rightarrow>
             if p = 0 then (KillReturned (Rejected (Error ''pid is required'')), w)
             else
               (case findWhere_pid (processes w) p of
                  None \<Rightarrow> (KillReturned (Rejected (Error ''pid not found'')), w)
                | Some procInfo \<Rightarrow>
                    if protected (snd procInfo)
                    then (KillReturned (Rejected (Error ''process is protected'')), w)
                    else
                      (case u_proc (snd procInfo) of
                         None \<Rightarrow>
                           (KillReturned (Rejected (Error
                              ''invalid procInfo object (pm-node internal error)'')), w)
                       | Some h \<Rightarrow>
                           (case k of
                              KillThrows err \<Rightarrow> (KillThrew err, w)
                            | KillReturns delivered \<Rightarrow>
                                (KillReturned
                                   (Fulfilled (VInfo (toPublicProcInfo (snd procInfo)))),
                                 if delivered
                                 then w\<lparr>signals := signals w @ [(h, signal)]\<rparr>
                                 else w)))))"

text \<open>
  \<open>getProcesses\<close>, given what \<open>usage.lookup\<close> answers for each pid and the order in
  which the answers arrive (as indices into the registry): the state of the promise of
  \<open>Q.all\<close> then. It is rejected with the first failure to arrive; it is fulfilled, in
  the order of the registry, once every lookup has answered and none has failed; until
  then it is pending.
\<close>
fun first_failure ::
  "(nat option \<Rightarrow> error + usage) \<Rightarrow> procRef list \<Rightarrow> nat list \<Rightarrow> error option" where
  "first_failure f ps [] = None"
| "first_failure f ps (i # arrival) =
     (if i < length ps
      then (case f (pid (snd (ps ! i))) of
              Inl err \<Rightarrow> Some err
            | Inr result \<Rightarrow> first_failure f ps arrival)
      else first_failure f ps arrival)"

text \<open>The entries of the result: the public view of each record with its usage.\<close>
fun answers ::
  "(nat option \<Rightarrow> error + usage) \<Rightarrow> procRef list \<Rightarrow> (procInfo \<times> usage) list" where
  "answers f [] = []"
| "answers f (info # rest) =
     (case f (pid (snd info)) of
        Inl err \<Rightarrow> answers f rest
      | Inr result \<Rightarrow> (toPublicProcInfo (snd info), result) # answers f rest)"

definition getProcesses ::
  "(nat option \<Rightarrow> error + usage) \<Rightarrow> nat list \<Rightarrow> world \<Rightarrow> pstate" where
  "getProcesses f arrival w =
     (case first_failure f (processes w) arrival of
        Some err \<Rightarrow> Rejected err
      | None \<Rightarrow>
          if list_all (\<lambda>i. i \<in> set arrival) [0..<length (processes w)]
          then Fulfilled (VProcesses (answers f (processes w)))
          else Pending)"

subsection \<open>Runs of the agent\<close>

datatype event =
    Connect connect_opts
  | SocketConnect nat
  | SocketError nat error
  | SocketClose nat
  | MuxError nat error
  | PingInterval nat
  | Spawn launch spawn_opts
  | Kill kill_result kill_opts
  | ProcError nat error
  | ProcClose nat exitcode
  | NextTick nat
  | PipeError nat bool

fun exec :: "event \<Rightarrow> world \<Rightarrow> world" where
  "exec (Connect opts) w = snd (connect opts w)"
| "exec (SocketConnect s) w = socketConnect s w"
| "exec (SocketError s err) w = socketError s err w"
| "exec (SocketClose s) w = socketClose s w"
| "exec (MuxError m err) w = muxError m err w"
| "exec (PingInterval time) w = onPingInterval time w"
| "exec (Spawn l opts) w = snd (spawn l opts w)"
| "exec (Kill k opts) w = snd (kill k opts w)"
| "exec (ProcError c err) w = procOnError c err w"
| "exec (ProcClose c cd) w = procOnClose c cd w"
| "exec (NextTick c) w = spawnNextTick c w"
| "exec (PipeError c out) w = pipeOnError c out w"

definition run :: "event list \<Rightarrow> world \<Rightarrow> world" where
  "run evs w = fold exec evs w"

text \<open>The state of a promise handed out earlier, in world \<open>w\<close>.\<close>
fun promise_state :: "world \<Rightarrow> promise \<Rightarrow> pstate" where
  "promise_state w (Q_new v) = Fulfilled v"
| "promise_state w (ConnectPromise s) = d_state (s_deferred (sockets w ! s))"
| "promise_state w (SpawnPromise c) = d_state (c_deferred (children w ! c))"

subsection \<open>Invariants of a run\<close>

text \<open>The registry without the first entry at the address of \<open>r\<close>.\<close>
fun removeRef :: "procRef \<Rightarrow> procRef list \<Rightarrow> procRef list" where
  "removeRef r [] = []"
| "removeRef r (x # xs) = (if fst x = fst r then xs else x # removeRef r xs)"

text \<open>
  The registry is well formed for an agent with pid \<open>p\<close>: no address occurs twice,
  every address is below the next free one, the agent's own entry is the first and the
  only protected one, and no child closed over address 0.
\<close>
definition reg_ok :: "nat \<Rightarrow> world \<Rightarrow> bool" where
  "reg_ok p w =
     (distinct (map fst (processes w)) \<and>
      list_all (\<lambda>r. fst r < nextAddr w) (processes w) \<and>
      (case processes w of
         [] \<Rightarrow> False
       | r # rest \<Rightarrow> r = selfInfo p \<and> list_all (\<lambda>x. \<not> protected (snd x)) rest) \<and>
      list_all (\<lambda>ch. 0 < fst (c_procInfo ch)) (children w))"


subsection \<open>Handles in what the agent hands out\<close>

text \<open>
  The process handles held by a procInfo object, by a value, by a promise state, by a
  deferred (state and progress values) and by an RPC call; then all handles in what a
  world has published: the deferreds of the children and of the sockets, whose promises
  the callers of \<open>spawn\<close> and \<open>connect\<close> hold, and the RPC calls issued.
\<close>
definition info_handles :: "procInfo \<Rightarrow> handle list" where
  "info_handles i = (case u_proc i of None \<Rightarrow> [] | Some h \<Rightarrow> [h])"

fun value_handles :: "value \<Rightarrow> handle list" where
  "value_handles VUndefined = []"
| "value_handles (VError e) = []"
| "value_handles (VInfo i) = info_handles i"
| "value_handles (VProcesses l) = concat (map (\<lambda>x. info_handles (fst x)) l)"

fun pstate_handles :: "pstate \<Rightarrow> handle list" where
  "pstate_handles Pending = []"
| "pstate_handles (Fulfilled v) = value_handles v"
| "pstate_handles (Rejected e) = []"

definition deferred_handles :: "deferred \<Rightarrow> handle list" where
  "deferred_handles d = pstate_handles (d_state d) @ concat (map value_handles (d_progress d))"

fun call_handles :: "rpc_call \<Rightarrow> handle list" where
  "call_handles (Loop t) = []"
| "call_handles (OnProcessEnd i) = info_handles i"

definition published_handles :: "world \<Rightarrow> handle list" where
  "published_handles w =
     concat (map (\<lambda>ch. deferred_handles (c_deferred ch)) (children w)) @
     concat (map (\<lambda>s. deferred_handles (s_deferred s)) (sockets w)) @
     concat (map (\<lambda>x. call_handles (snd x)) (rpcCalls w))"

subsection \<open>A child between launch and close\<close>




text \<open>
  Child \<open>c\<close> was spawned in execution mode under the name \<open>nm\<close> with the record
  \<open>r\<close>, has reported \<open>le\<close> as its last error, has not closed, and its promise is
  pending.
\<close>
definition awaiting :: "nat \<Rightarrow> string \<Rightarrow> procRef \<Rightarrow> error option \<Rightarrow> world \<Rightarrow> bool" where
  "awaiting c nm r le w =
     (c < length (children w) \<and>
      c_name (children w ! c) = nm \<and>
      c_procInfo (children w ! c) = r \<and>
      c_promise (children w ! c) = ''execution'' \<and>
      c_lastProcError (children w ! c) = le \<and>
      \<not> c_closed (children w ! c) \<and>
      d_state (c_deferred (children w ! c)) = Pending)"

section \<open>Properties\<close>

subsection \<open>The registry\<close>

lemma splice_indexOf:
  "(case indexOf ps r of Some i \<Rightarrow> splice1 i ps | None \<Rightarrow> ps) = removeRef r ps"
  by (induction ps) (auto simp: splice1_def split: option.splits)

lemma set_removeRef: "set (removeRef r ps) \<subseteq> set ps"
  by (induction ps) auto

lemma fst_removeRef: "a \<notin> fst ` set ps \<Longrightarrow> a \<notin> fst ` set (removeRef r ps)"
  using set_removeRef [of r ps] by blast

lemma distinct_removeRef: "distinct (map fst ps) \<Longrightarrow> distinct (map fst (removeRef r ps))"
  by (induction ps) (simp_all add: fst_removeRef)


lemma list_all_removeRef: "list_all P ps \<Longrightarrow> list_all P (removeRef r ps)"
  by (induction ps) auto

lemma removeRef_head:
  "fst x \<noteq> fst r \<Longrightarrow> removeRef r (x # xs) = x # removeRef r xs"
  by simp

lemma reg_ok_init: "reg_ok p (PMNode nopts p)"
  by (simp add: reg_ok_def PMNode_def selfInfo_def)

lemma reg_ok_frame:
  "reg_ok p w \<Longrightarrow> processes w' = processes w \<Longrightarrow> nextAddr w' = nextAddr w \<Longrightarrow>
   map c_procInfo (children w') = map c_procInfo (children w) \<Longrightarrow> reg_ok p w'"
proof -
  assume a: "reg_ok p w" "processes w' = processes w" "nextAddr w' = nextAddr w"
    "map c_procInfo (children w') = map c_procInfo (children w)"
  have "list_all (\<lambda>ch. 0 < fst (c_procInfo ch)) (children w') =
        list_all (\<lambda>a. 0 < fst a) (map c_procInfo (children w'))"
    by (simp add: list_all_iff)
  also have "\<dots> = list_all (\<lambda>ch. 0 < fst (c_procInfo ch)) (children w)"
    by (simp add: a(4) list_all_iff)
  finally show ?thesis using a(1,2,3) by (simp add: reg_ok_def)
qed

lemma map_procInfo_update:
  "c < length xs \<Longrightarrow> c_procInfo y = c_procInfo (xs ! c) \<Longrightarrow>
   map c_procInfo (xs[c := y]) = map c_procInfo xs"
  by (rule nth_equalityI) (auto simp: nth_list_update)

lemma reg_ok_connect: "reg_ok p w \<Longrightarrow> reg_ok p (snd (connect opts w))"
  by (erule reg_ok_frame) (simp_all add: connect_def Let_def)

lemma reg_ok_socketConnect: "reg_ok p w \<Longrightarrow> reg_ok p (socketConnect s w)"
  by (erule reg_ok_frame)
     (simp_all add: socketConnect_def onRawSocketConnection_def Let_def)

lemma reg_ok_socketError: "reg_ok p w \<Longrightarrow> reg_ok p (socketError s err w)"
  by (erule reg_ok_frame) (simp_all add: socketError_def Let_def)

lemma reg_ok_socketClose: "reg_ok p w \<Longrightarrow> reg_ok p (socketClose s w)"
  by (erule reg_ok_frame) (simp_all add: socketClose_def onRawSocketClose_def Let_def)

lemma reg_ok_muxError: "reg_ok p w \<Longrightarrow> reg_ok p (muxError m err w)"
  by (erule reg_ok_frame) (simp_all add: muxError_def onMuxError_def)

lemma reg_ok_ping: "reg_ok p w \<Longrightarrow> reg_ok p (onPingInterval t w)"
  by (erule reg_ok_frame)
     (simp_all add: onPingInterval_def connect_def Let_def split: option.splits)

lemma reg_ok_kill: "reg_ok p w \<Longrightarrow> reg_ok p (snd (kill k opts w))"
  by (erule reg_ok_frame)
     (simp_all add: kill_def Let_def split: option.splits kill_result.splits)

lemma reg_ok_procOnError: "reg_ok p w \<Longrightarrow> reg_ok p (procOnError c err w)"
  by (erule reg_ok_frame)
     (simp_all add: procOnError_def upd_child_def map_procInfo_update)

lemma reg_ok_spawnNextTick: "reg_ok p w \<Longrightarrow> reg_ok p (spawnNextTick c w)"
  by (erule reg_ok_frame)
     (simp_all add: spawnNextTick_def upd_child_def map_procInfo_update)

lemma reg_ok_pipeOnError: "reg_ok p w \<Longrightarrow> reg_ok p (pipeOnError c out w)"
  by (erule reg_ok_frame)
     (simp_all add: pipeOnError_def upd_child_def map_procInfo_update)

text \<open>What \<open>spawn\<close> does to the registry once the process is launched, whatever follows.\<close>
lemma spawn_launched_registry:
  "processes (snd (spawn_launched pd nm mode opts w)) = processes w @
     [(nextAddr w, \<lparr>name = nm, pid = pd, u_proc = Some (ChildProcess (length (children w))),
        protected = False, coreId = o_coreId opts, promise = Some mode, code = None,
        error = None\<rparr>)]"
  "nextAddr (snd (spawn_launched pd nm mode opts w)) = Suc (nextAddr w)"
  "map c_procInfo (children (snd (spawn_launched pd nm mode opts w))) =
     map c_procInfo (children w) @
     [(nextAddr w, \<lparr>name = nm, pid = pd, u_proc = Some (ChildProcess (length (children w))),
        protected = False, coreId = o_coreId opts, promise = Some mode, code = None,
        error = None\<rparr>)]"
  by (simp_all add: spawn_launched_def Let_def upd_child_def
      split: option.splits sum.splits prod.splits)

lemma reg_ok_push:
  assumes "reg_ok p w"
    and "processes w' = processes w @ [(nextAddr w, i)]" and "\<not> protected i"
    and "nextAddr w' = Suc (nextAddr w)"
    and "map c_procInfo (children w') = map c_procInfo (children w) @ [(nextAddr w, i)]"
  shows "reg_ok p w'"
proof -
  obtain rest where ps: "processes w = selfInfo p # rest"
    using assms(1) by (auto simp: reg_ok_def split: list.splits)
  have lt: "\<forall>r\<in>set (processes w). fst r < nextAddr w"
    using assms(1) by (simp add: reg_ok_def list_all_iff)
  then have pos: "0 < nextAddr w" by (auto simp: ps selfInfo_def)
  have fresh: "nextAddr w \<notin> fst ` set (processes w)" using lt by auto
  have "list_all (\<lambda>ch. 0 < fst (c_procInfo ch)) (children w') =
        list_all (\<lambda>a. 0 < fst a) (map c_procInfo (children w'))"
    by (simp add: list_all_iff)
  also have "\<dots>" using assms(1) pos by (simp add: assms(5) reg_ok_def list_all_iff)
  finally have ch: "list_all (\<lambda>ch. 0 < fst (c_procInfo ch)) (children w')" .
  have "distinct (map fst (processes w'))"
    using assms(1) fresh by (simp add: assms(2) reg_ok_def)
  moreover have "list_all (\<lambda>r. fst r < nextAddr w') (processes w')"
    using lt by (auto simp: assms(2,4) list_all_iff)
  moreover have "list_all (\<lambda>x. \<not> protected (snd x)) (rest @ [(nextAddr w, i)])"
    using assms(1,3) by (simp add: ps reg_ok_def)
  ultimately show ?thesis using ch by (simp add: reg_ok_def assms(2) ps)
qed

lemma reg_ok_spawn: "reg_ok p w \<Longrightarrow> reg_ok p (snd (spawn l opts w))"
proof -
  assume a: "reg_ok p w"
  have b: "reg_ok p (w\<lparr>osSpawns := x\<rparr>)" for x
    using a by (rule reg_ok_frame) simp_all
  show ?thesis
    by (auto simp add: spawn_def Let_def a b spawn_launched_registry
        intro!: reg_ok_push [OF b] split: launch.splits)
qed

lemma reg_ok_procOnClose: "reg_ok p w \<Longrightarrow> reg_ok p (procOnClose c cd w)"
proof (cases "c < length (children w) \<and> \<not> c_closed (children w ! c)")
  case False
  assume "reg_ok p w"
  with False show ?thesis by (auto simp: procOnClose_def)
next
  case True
  assume a: "reg_ok p w"
  obtain rest where ps: "processes w = selfInfo p # rest"
    using a by (auto simp: reg_ok_def split: list.splits)
  let ?r = "c_procInfo (children w ! c)"
  have "0 < fst ?r" using a True by (auto simp: reg_ok_def list_all_length)
  then have ne: "fst (selfInfo p) \<noteq> fst ?r" by (simp add: selfInfo_def)
  have "processes (procOnClose c cd w) = removeRef ?r (processes w)"
    using True by (simp add: procOnClose_def Let_def splice_indexOf)
  then have p': "processes (procOnClose c cd w) = selfInfo p # removeRef ?r rest"
    using ne by (simp add: ps)
  have n': "nextAddr (procOnClose c cd w) = nextAddr w"
    using True by (simp add: procOnClose_def Let_def)
  have c': "map c_procInfo (children (procOnClose c cd w)) = map c_procInfo (children w)"
    using True by (simp add: procOnClose_def Let_def map_procInfo_update)
  have "list_all (\<lambda>ch. 0 < fst (c_procInfo ch)) (children (procOnClose c cd w)) =
        list_all (\<lambda>a. 0 < fst a) (map c_procInfo (children (procOnClose c cd w)))"
    by (simp add: list_all_iff)
  also have "\<dots>" using a by (simp add: c' reg_ok_def list_all_iff)
  finally show ?thesis
    using a
    by (simp add: reg_ok_def p' n' ps distinct_removeRef fst_removeRef list_all_removeRef)
qed

lemma reg_ok_exec: "reg_ok p w \<Longrightarrow> reg_ok p (exec e w)"
  by (cases e)
     (simp_all add: reg_ok_connect reg_ok_socketConnect reg_ok_socketError reg_ok_socketClose
        reg_ok_muxError reg_ok_ping reg_ok_spawn reg_ok_kill reg_ok_procOnError
        reg_ok_procOnClose reg_ok_spawnNextTick reg_ok_pipeOnError)

lemma reg_ok_run: "reg_ok p w \<Longrightarrow> reg_ok p (run evs w)"
  unfolding run_def by (induction evs arbitrary: w) (simp_all add: reg_ok_exec)


text \<open>Every definition of the agent, for evaluating a run on concrete inputs.\<close>
lemmas agent_defs =
  run_def PMNode_def selfInfo_def connect_def no_connect_opts_def socketConnect_def
  socketError_def socketClose_def muxError_def onPingInterval_def onRawSocketConnection_def
  onRawSocketClose_def onMuxError_def d_resolve_def d_reject_def d_notify_def
  spawn_def spawn_launched_def spawn_name_def basename_def upd_child_def procOnError_def
  procOnClose_def spawnNextTick_def pipeOnError_def kill_def getProcesses_def
  toPublicProcInfo_def extend_code_def splice1_def Let_def

lemma findWhere_pid_Some:
  "findWhere_pid ps p = Some r \<Longrightarrow> r \<in> set ps \<and> pid (snd r) = Some p"
  by (induction ps) (auto split: if_splits)

text \<open>
  C6. After any run of the agent from its construction (calls of \<open>connect\<close>,
  \<open>spawn\<close> and \<open>kill\<close>, socket, multiplexer, timer and child events, in any order
  and number), the protected records of the registry are exactly one: the entry the
  constructor made for the agent's own process.
\<close>
theorem one_protected_record:
  "filter (\<lambda>r. protected (snd r)) (processes (run evs (PMNode nopts p))) = [selfInfo p]"
proof -
  have "reg_ok p (run evs (PMNode nopts p))" by (simp add: reg_ok_run reg_ok_init)
  then obtain rest where "processes (run evs (PMNode nopts p)) = selfInfo p # rest"
    "list_all (\<lambda>x. \<not> protected (snd x)) rest"
    by (auto simp: reg_ok_def split: list.splits)
  then show ?thesis by (simp add: selfInfo_def list_all_iff)
qed

theorem one_protected_record_witness:
  "filter (\<lambda>r. protected (snd r))
     (processes (run
        [Spawn (Launched (Some 4243))
           \<lparr>o_command = Some ''/bin/sleep'', o_args = Some [''5''], o_name = None,
            o_coreId = None, o_promise = None, o_stdout = None, o_stderr = None\<rparr>,
         Kill (KillReturns True) \<lparr>k_pid = Some 4243, k_signal = None\<rparr>,
         ProcClose 0 ExitNull]
        (PMNode \<lparr>o_serverHost = ''master'', o_serverPort = 9000\<rparr> 4242))) =
   [selfInfo 4242] \<and>
   processes (run
        [Spawn (Launched (Some 4243))
           \<lparr>o_command = Some ''/bin/sleep'', o_args = Some [''5''], o_name = None,
            o_coreId = None, o_promise = None, o_stdout = None, o_stderr = None\<rparr>,
         Kill (KillReturns True) \<lparr>k_pid = Some 4243, k_signal = None\<rparr>,
         ProcClose 0 ExitNull]
        (PMNode \<lparr>o_serverHost = ''master'', o_serverPort = 9000\<rparr> 4242)) = [selfInfo 4242]"
  using one_protected_record
    [of "[Spawn (Launched (Some 4243))
           \<lparr>o_command = Some ''/bin/sleep'', o_args = Some [''5''], o_name = None,
            o_coreId = None, o_promise = None, o_stdout = None, o_stderr = None\<rparr>,
         Kill (KillReturns True) \<lparr>k_pid = Some 4243, k_signal = None\<rparr>,
         ProcClose 0 ExitNull]" "\<lparr>o_serverHost = ''master'', o_serverPort = 9000\<rparr>" 4242]
  by (simp add: agent_defs)

subsection \<open>kill\<close>

text \<open>
  C7. After any run of an agent whose own pid is \<open>p\<close> (a pid is not 0), \<open>kill\<close> with
  pid \<open>p\<close> and any signal, given or not, whatever a handle would do with it, returns a promise rejected with
  'process is protected' and leaves the world as it was: no signal is sent and the
  registry is unchanged.
\<close>
theorem kill_protected_rejected:
  assumes "p \<noteq> 0"
  shows "kill k \<lparr>k_pid = Some p, k_signal = s\<rparr> (run evs (PMNode nopts p)) =
     (KillReturned (Rejected (Error ''process is protected'')), run evs (PMNode nopts p))"
proof -
  have "reg_ok p (run evs (PMNode nopts p))" by (simp add: reg_ok_run reg_ok_init)
  then obtain rest where "processes (run evs (PMNode nopts p)) = selfInfo p # rest"
    by (auto simp: reg_ok_def split: list.splits)
  then show ?thesis using assms by (simp add: kill_def selfInfo_def)
qed

theorem kill_protected_rejected_witness:
  "(4242::nat) \<noteq> 0 \<and>
   fst (kill (KillReturns True) \<lparr>k_pid = Some 4242, k_signal = Some ''SIGKILL''\<rparr>
     (run [Spawn (Launched (Some 4243))
           \<lparr>o_command = Some ''/bin/sleep'', o_args = Some [''5''], o_name = None,
            o_coreId = None, o_promise = None, o_stdout = None, o_stderr = None\<rparr>]
        (PMNode \<lparr>o_serverHost = ''master'', o_serverPort = 9000\<rparr> 4242))) =
   KillReturned (Rejected (Error ''process is protected''))"
  using kill_protected_rejected [of 4242 "KillReturns True" "Some ''SIGKILL''"
     "[Spawn (Launched (Some 4243))
           \<lparr>o_command = Some ''/bin/sleep'', o_args = Some [''5''], o_name = None,
            o_coreId = None, o_promise = None, o_stdout = None, o_stderr = None\<rparr>]"
     "\<lparr>o_serverHost = ''master'', o_serverPort = 9000\<rparr>"]
  by simp

text \<open>
  Apart from the 'close' listener of a child, nothing takes an entry out of the registry.
\<close>
lemma registry_kept_unless_close:
  assumes "\<And>c cd. e \<noteq> ProcClose c cd"
  shows "set (processes w) \<subseteq> set (processes (exec e w))"
  using assms
  by (cases e)
     (auto simp add: connect_def socketConnect_def socketError_def socketClose_def
        muxError_def onPingInterval_def onRawSocketConnection_def onRawSocketClose_def
        onMuxError_def spawn_def spawn_launched_registry kill_def procOnError_def
        spawnNextTick_def pipeOnError_def upd_child_def Let_def
        split: option.splits launch.splits kill_result.splits)

text \<open>Where one record only has the pid, the lookup finds that record.\<close>
lemma findWhere_pid_unique:
  assumes "r \<in> set ps" and "pid (snd r) = Some p"
    and "\<forall>x\<in>set ps. pid (snd x) = Some p \<longrightarrow> x = r"
  shows "findWhere_pid ps p = Some r"
  using assms
proof (induction ps)
  case Nil
  then show ?case by simp
next
  case (Cons x xs)
  show ?case
  proof (cases "pid (snd x) = Some p")
    case True
    have "x \<in> set (x # xs)" by simp
    with Cons.prems(3) True have "x = r" by blast
    then show ?thesis using True by simp
  next
    case False
    with Cons.prems(1,2) have "r \<noteq> x" by blast
    with Cons.prems(1) have "r \<in> set xs" by simp
    moreover have "\<forall>y\<in>set xs. pid (snd y) = Some p \<longrightarrow> y = r"
      using Cons.prems(3) by (meson list.set_intros(2))
    ultimately have "findWhere_pid xs p = Some r"
      using Cons.IH Cons.prems(2) by blast
    then show ?thesis using False by simp
  qed
qed

text \<open>
  C8, as stated, fails. A child with pid 4243 is in the registry, unprotected, with its
  handle. \<open>kill\<close> for that pid with the signal name 'SIGFOO', which the handle's
  \<open>kill\<close> refuses by throwing: the exception escapes \<open>kill\<close>, no promise is returned
  and no signal is delivered. \<open>kill\<close> for that pid when the handle's \<open>kill\<close> returns
  \<open>false\<close> (the process has exited, its 'close' is still to come): the promise is
  fulfilled although no signal is delivered. And with two children in the registry under
  the pid 4243 (the first has exited and awaits its 'close', the pid was given out
  again), the signal goes to the handle of the first only.
\<close>
theorem kill_without_delivery:
  "findWhere_pid
     (processes (run [Spawn (Launched (Some 4243))
           \<lparr>o_command = Some ''/bin/sleep'', o_args = Some [''5''], o_name = None,
            o_coreId = None, o_promise = None, o_stdout = None, o_stderr = None\<rparr>]
        (PMNode \<lparr>o_serverHost = ''master'', o_serverPort = 9000\<rparr> 4242))) 4243 =
     Some (1, \<lparr>name = ''sleep'', pid = Some 4243, u_proc = Some (ChildProcess 0),
          protected = False, coreId = None, promise = Some ''creation'', code = None,
          error = None\<rparr>) \<and>
   kill (KillThrows (Error ''Unknown signal: SIGFOO''))
     \<lparr>k_pid = Some 4243, k_signal = Some ''SIGFOO''\<rparr>
     (run [Spawn (Launched (Some 4243))
           \<lparr>o_command = Some ''/bin/sleep'', o_args = Some [''5''], o_name = None,
            o_coreId = None, o_promise = None, o_stdout = None, o_stderr = None\<rparr>]
        (PMNode \<lparr>o_serverHost = ''master'', o_serverPort = 9000\<rparr> 4242)) =
     (KillThrew (Error ''Unknown signal: SIGFOO''),
      run [Spawn (Launched (Some 4243))
           \<lparr>o_command = Some ''/bin/sleep'', o_args = Some [''5''], o_name = None,
            o_coreId = None, o_promise = None, o_stdout = None, o_stderr = None\<rparr>]
        (PMNode \<lparr>o_serverHost = ''master'', o_serverPort = 9000\<rparr> 4242)) \<and>
   fst (kill (KillReturns False) \<lparr>k_pid = Some 4243, k_signal = None\<rparr>
     (run [Spawn (Launched (Some 4243))
           \<lparr>o_command = Some ''/bin/sleep'', o_args = Some [''5''], o_name = None,
            o_coreId = None, o_promise = None, o_stdout = None, o_stderr = None\<rparr>]
        (PMNode \<lparr>o_serverHost = ''master'', o_serverPort = 9000\<rparr> 4242))) =
     KillReturned (Fulfilled (VInfo \<lparr>name = ''sleep'', pid = Some 4243, u_proc = None,
       protected = False, coreId = None, promise = Some ''creation'', code = None,
       error = None\<rparr>)) \<and>
   signals (snd (kill (KillReturns False) \<lparr>k_pid = Some 4243, k_signal = None\<rparr>
     (run [Spawn (Launched (Some 4243))
           \<lparr>o_command = Some ''/bin/sleep'', o_args = Some [''5''], o_name = None,
            o_coreId = None, o_promise = None, o_stdout = None, o_stderr = None\<rparr>]
        (PMNode \<lparr>o_serverHost = ''master'', o_serverPort = 9000\<rparr> 4242)))) = [] \<and>
   map (\<lambda>r. (pid (snd r), u_proc (snd r), protected (snd r)))
     (processes (run
        [Spawn (Launched (Some 4243))
           \<lparr>o_command = Some ''/bin/sleep'', o_args = Some [''5''], o_name = None,
            o_coreId = None, o_promise = None, o_stdout = None, o_stderr = None\<rparr>,
         Spawn (Launched (Some 4243))
           \<lparr>o_command = Some ''/bin/sleep'', o_args = Some [''5''], o_name = None,
            o_coreId = None, o_promise = None, o_stdout = None, o_stderr = None\<rparr>]
        (PMNode \<lparr>o_serverHost = ''master'', o_serverPort = 9000\<rparr> 4242))) =
     [(Some 4242, Some Process, True), (Some 4243, Some (ChildProcess 0), False),
      (Some 4243, Some (ChildProcess 1), False)] \<and>
   signals (snd (kill (KillReturns True) \<lparr>k_pid = Some 4243, k_signal = None\<rparr>
     (run
        [Spawn (Launched (Some 4243))
           \<lparr>o_command = Some ''/bin/sleep'', o_args = Some [''5''], o_name = None,
            o_coreId = None, o_promise = None, o_stdout = None, o_stderr = None\<rparr>,
         Spawn (Launched (Some 4243))
           \<lparr>o_command = Some ''/bin/sleep'', o_args = Some [''5''], o_name = None,
            o_coreId = None, o_promise = None, o_stdout = None, o_stderr = None\<rparr>]
        (PMNode \<lparr>o_serverHost = ''master'', o_serverPort = 9000\<rparr> 4242)))) =
     [(ChildProcess 0, ''SIGTERM'')]"
  by (simp add: agent_defs)

text \<open>
  C8, amended. In any world, a \<open>kill\<close> request with a pid (not 0) for which the registry
  lookup returns a record \<open>r\<close> that is not protected and holds a handle \<open>h\<close>. When the
  handle's \<open>kill\<close> reports delivery, the signal asked for, or SIGTERM when none is
  given, has been delivered to \<open>h\<close>, nothing else has changed and the promise is
  fulfilled with the public view of \<open>r\<close>. When it reports no delivery, the promise is
  fulfilled with the public view of \<open>r\<close> all the same and the world is as it was.
  Whatever the handle's \<open>kill\<close> does, the registry is the same afterwards and \<open>r\<close> is
  still in it.
\<close>
theorem kill_delivers_signal:
  assumes "p \<noteq> 0" and "findWhere_pid (processes w) p = Some r"
    and "\<not> protected (snd r)" and "u_proc (snd r) = Some h"
  shows "kill (KillReturns True) \<lparr>k_pid = Some p, k_signal = s\<rparr> w =
           (KillReturned (Fulfilled (VInfo (toPublicProcInfo (snd r)))),
            w\<lparr>signals := signals w @
                 [(h, case s of None \<Rightarrow> ''SIGTERM'' | Some x \<Rightarrow> x)]\<rparr>) \<and>
         kill (KillReturns False) \<lparr>k_pid = Some p, k_signal = s\<rparr> w =
           (KillReturned (Fulfilled (VInfo (toPublicProcInfo (snd r)))), w) \<and>
         processes (snd (kill k \<lparr>k_pid = Some p, k_signal = s\<rparr> w)) = processes w \<and>
         r \<in> set (processes (snd (kill k \<lparr>k_pid = Some p, k_signal = s\<rparr> w)))"
  using assms findWhere_pid_Some [of "processes w" p r]
  by (simp add: kill_def split: kill_result.splits)

theorem kill_delivers_signal_witness:
  "(4243::nat) \<noteq> 0 \<and>
   fst (kill (KillReturns True) \<lparr>k_pid = Some 4243, k_signal = None\<rparr>
     (run [Spawn (Launched (Some 4243))
           \<lparr>o_command = Some ''/bin/sleep'', o_args = Some [''5''], o_name = None,
            o_coreId = None, o_promise = None, o_stdout = None, o_stderr = None\<rparr>]
        (PMNode \<lparr>o_serverHost = ''master'', o_serverPort = 9000\<rparr> 4242))) =
     KillReturned (Fulfilled (VInfo \<lparr>name = ''sleep'', pid = Some 4243, u_proc = None,
       protected = False, coreId = None, promise = Some ''creation'', code = None,
       error = None\<rparr>)) \<and>
   signals (snd (kill (KillReturns True) \<lparr>k_pid = Some 4243, k_signal = None\<rparr>
     (run [Spawn (Launched (Some 4243))
           \<lparr>o_command = Some ''/bin/sleep'', o_args = Some [''5''], o_name = None,
            o_coreId = None, o_promise = None, o_stdout = None, o_stderr = None\<rparr>]
        (PMNode \<lparr>o_serverHost = ''master'', o_serverPort = 9000\<rparr> 4242)))) =
     [(ChildProcess 0, ''SIGTERM'')] \<and>
   length (processes (snd (kill (KillThrows (Error ''Unknown signal: SIGFOO''))
     \<lparr>k_pid = Some 4243, k_signal = None\<rparr>
     (run [Spawn (Launched (Some 4243))
           \<lparr>o_command = Some ''/bin/sleep'', o_args = Some [''5''], o_name = None,
            o_coreId = None, o_promise = None, o_stdout = None, o_stderr = None\<rparr>]
        (PMNode \<lparr>o_serverHost = ''master'', o_serverPort = 9000\<rparr> 4242))))) = 2"
  using kill_delivers_signal [of 4243
     "run [Spawn (Launched (Some 4243))
           \<lparr>o_command = Some ''/bin/sleep'', o_args = Some [''5''], o_name = None,
            o_coreId = None, o_promise = None, o_stdout = None, o_stderr = None\<rparr>]
        (PMNode \<lparr>o_serverHost = ''master'', o_serverPort = 9000\<rparr> 4242)"
     "(1, \<lparr>name = ''sleep'', pid = Some 4243, u_proc = Some (ChildProcess 0),
          protected = False, coreId = None, promise = Some ''creation'', code = None,
          error = None\<rparr>)"
     "ChildProcess 0" None "KillThrows (Error ''Unknown signal: SIGFOO'')"]
  by (simp add: agent_defs)

subsection \<open>Promises fulfilled with an error\<close>

text \<open>
  C3. \<open>connect\<close> called on an agent that is connected (a socket has been opened and has
  reported 'connect', so that \<open>rawSocket\<close> and \<open>rpc\<close> are set) returns
  \<open>new Q(new Error('client is conencted'))\<close> and leaves the world as it was. That promise
  is fulfilled, with the Error object as its value: it is not rejected.
\<close>
theorem connect_while_connected_fulfilled:
  "rpc (run [Connect no_connect_opts, SocketConnect 0] (PMNode nopts p)) = Some 0 \<and>
   rawSocket (run [Connect no_connect_opts, SocketConnect 0] (PMNode nopts p)) = Some 0 \<and>
   connect opts (run [Connect no_connect_opts, SocketConnect 0] (PMNode nopts p)) =
     (Q_new (VError (Error ''client is conencted'')),
      run [Connect no_connect_opts, SocketConnect 0] (PMNode nopts p)) \<and>
   promise_state w' (Q_new (VError (Error ''client is conencted''))) =
     Fulfilled (VError (Error ''client is conencted''))"
  by (simp add: run_def connect_def no_connect_opts_def PMNode_def Let_def socketConnect_def
      onRawSocketConnection_def d_resolve_def)

theorem connect_while_connected_fulfilled_witness:
  "fst (connect \<lparr>co_ping = Some False, co_pingInterval = None\<rparr>
     (run [Connect no_connect_opts, SocketConnect 0]
        (PMNode \<lparr>o_serverHost = ''master'', o_serverPort = 9000\<rparr> 4242))) =
   Q_new (VError (Error ''client is conencted'')) \<and>
   promise_state (PMNode \<lparr>o_serverHost = ''master'', o_serverPort = 9000\<rparr> 4242)
     (Q_new (VError (Error ''client is conencted''))) =
   Fulfilled (VError (Error ''client is conencted''))"
  using connect_while_connected_fulfilled
    [of "\<lparr>o_serverHost = ''master'', o_serverPort = 9000\<rparr>" 4242
        "\<lparr>co_ping = Some False, co_pingInterval = None\<rparr>"
        "PMNode \<lparr>o_serverHost = ''master'', o_serverPort = 9000\<rparr> 4242"]
  by simp

text \<open>
  C4. \<open>spawn\<close> without a command, and \<open>spawn\<close> with the completion mode 'exit',
  return \<open>new Q(new Error(...))\<close> with a message that names the fault, launch nothing
  and leave the world as it was. The promise returned is fulfilled, with the Error object
  as its value: it is not rejected.
\<close>
theorem spawn_usage_error_fulfilled:
  "spawn l \<lparr>o_command = None, o_args = a, o_name = n, o_coreId = ci, o_promise = pm,
            o_stdout = so, o_stderr = se\<rparr> w =
     (Returned (Q_new (VError (Error ''command is required''))), w) \<and>
   spawn l \<lparr>o_command = Some ''ls'', o_args = a, o_name = n, o_coreId = ci,
            o_promise = Some ''exit'', o_stdout = so, o_stderr = se\<rparr> w =
     (Returned (Q_new (VError (Error ''promise type exit is not supported''))), w) \<and>
   promise_state w' (Q_new (VError (Error ''command is required''))) =
     Fulfilled (VError (Error ''command is required'')) \<and>
   promise_state w' (Q_new (VError (Error ''promise type exit is not supported''))) =
     Fulfilled (VError (Error ''promise type exit is not supported''))"
  by (simp add: spawn_def Let_def)

text \<open>
  C2. \<open>spawn\<close> of 'missing-binary' with no completion mode given, when
  \<open>child_process.spawn\<close> throws \<open>err\<close>: the registry, the children and the RPC calls
  are as before, and the promise returned is \<open>new Q(err)\<close>, which is fulfilled with
  \<open>err\<close> as its value: it is not rejected.
\<close>
theorem spawn_launch_throw_fulfilled:
  "spawn (LaunchThrows err)
     \<lparr>o_command = Some ''missing-binary'', o_args = None, o_name = None, o_coreId = None,
      o_promise = None, o_stdout = None, o_stderr = None\<rparr> w =
     (Returned (Q_new (VError err)),
      w\<lparr>osSpawns := osSpawns w @ [(''missing-binary'', [])]\<rparr>) \<and>
   promise_state w' (Q_new (VError err)) = Fulfilled (VError err)"
  by (simp add: spawn_def Let_def)

text \<open>
  A process that cannot be started without \<open>child_process.spawn\<close> throwing: a
  ChildProcess without pid is returned, which then reports an error and closes. In
  creation mode the record is added and the promise is fulfilled with its public view at
  once; the error travels in the \<open>onProcessEnd\<close> call of the 'close' listener.
\<close>
lemma spawn_unstartable_process_creation:
  "spawn (Launched None)
     \<lparr>o_command = Some ''missing-binary'', o_args = None, o_name = None, o_coreId = None,
      o_promise = None, o_stdout = None, o_stderr = None\<rparr>
     (run [Connect no_connect_opts, SocketConnect 0] (PMNode nopts p)) =
     (Returned (SpawnPromise 0),
      run [Connect no_connect_opts, SocketConnect 0,
           Spawn (Launched None)
            \<lparr>o_command = Some ''missing-binary'', o_args = None, o_name = None,
             o_coreId = None, o_promise = None, o_stdout = None, o_stderr = None\<rparr>]
        (PMNode nopts p)) \<and>
   promise_state
     (run [Connect no_connect_opts, SocketConnect 0,
           Spawn (Launched None)
            \<lparr>o_command = Some ''missing-binary'', o_args = None, o_name = None,
             o_coreId = None, o_promise = None, o_stdout = None, o_stderr = None\<rparr>]
        (PMNode nopts p)) (SpawnPromise 0) =
     Fulfilled (VInfo \<lparr>name = ''missing-binary'', pid = None, u_proc = None,
       protected = False, coreId = None, promise = Some ''creation'', code = None,
       error = None\<rparr>) \<and>
   length (processes
     (run [Connect no_connect_opts, SocketConnect 0,
           Spawn (Launched None)
            \<lparr>o_command = Some ''missing-binary'', o_args = None, o_name = None,
             o_coreId = None, o_promise = None, o_stdout = None, o_stderr = None\<rparr>]
        (PMNode nopts p))) = 2 \<and>
   rpcCalls
     (run [Connect no_connect_opts, SocketConnect 0,
           Spawn (Launched None)
            \<lparr>o_command = Some ''missing-binary'', o_args = None, o_name = None,
             o_coreId = None, o_promise = None, o_stdout = None, o_stderr = None\<rparr>,
           ProcError 0 (Error ''spawn ENOENT''), ProcClose 0 (Exit (- 2))]
        (PMNode nopts p)) =
     [(0, OnProcessEnd \<lparr>name = ''missing-binary'', pid = None, u_proc = None,
        protected = False, coreId = None, promise = Some ''creation'',
        code = Some (Exit (- 2)), error = Some (Error ''spawn ENOENT'')\<rparr>)]"
  by (simp add: agent_defs)

subsection \<open>spawn in execution mode\<close>

text \<open>
  C10. \<open>spawn\<close> with a command, the completion mode 'execution' and a label for stdout
  or for stderr, in a world without a multiplexer, when the process is launched: the call
  throws the TypeError of reading \<open>createStream\<close> of the absent multiplexer instead of
  returning a promise, and the registry then holds the new record as its last entry.
\<close>
theorem spawn_execution_pipe_without_mux_throws:
  assumes "mux w = None" and "truthy (o_command opts)"
    and "o_promise opts = Some ''execution''"
    and "truthy (o_stdout opts) \<or> truthy (o_stderr opts)"
  shows "fst (spawn (Launched p) opts w) = Threw (NullDeref ''createStream'') \<and>
     processes (snd (spawn (Launched p) opts w)) = processes w @
        [(nextAddr w, \<lparr>name = spawn_name opts, pid = p,
           u_proc = Some (ChildProcess (length (children w))), protected = False,
           coreId = o_coreId opts, promise = Some ''execution'', code = None,
           error = None\<rparr>)]"
  using assms
  by (auto simp add: spawn_def spawn_launched_def Let_def upd_child_def split: option.splits)

theorem spawn_execution_pipe_without_mux_throws_witness:
  "mux (PMNode \<lparr>o_serverHost = ''master'', o_serverPort = 9000\<rparr> 4242) = None \<and>
   spawn (Launched (Some 4243))
     \<lparr>o_command = Some ''/bin/ls'', o_args = None, o_name = None, o_coreId = None,
      o_promise = Some ''execution'', o_stdout = Some ''out'', o_stderr = None\<rparr>
     (PMNode \<lparr>o_serverHost = ''master'', o_serverPort = 9000\<rparr> 4242) =
   (Threw (NullDeref ''createStream''),
    (PMNode \<lparr>o_serverHost = ''master'', o_serverPort = 9000\<rparr> 4242)
      \<lparr>processes := [selfInfo 4242,
         (1, \<lparr>name = ''ls'', pid = Some 4243, u_proc = Some (ChildProcess 0),
              protected = False, coreId = None, promise = Some ''execution'', code = None,
              error = None\<rparr>)],
       nextAddr := 2,
       children := [\<lparr>c_name = ''ls'',
         c_procInfo = (1, \<lparr>name = ''ls'', pid = Some 4243, u_proc = Some (ChildProcess 0),
              protected = False, coreId = None, promise = Some ''execution'', code = None,
              error = None\<rparr>),
         c_masterRpc = None, c_lastProcError = None, c_promise = ''execution'',
         c_deferred = \<lparr>d_state = Pending, d_progress = []\<rparr>, c_closed = False,
         c_tick = False, c_stdout = None, c_stderr = None\<rparr>],
       osSpawns := [(''/bin/ls'', [])]\<rparr>)"
  using spawn_execution_pipe_without_mux_throws
    [of "PMNode \<lparr>o_serverHost = ''master'', o_serverPort = 9000\<rparr> 4242"
        "\<lparr>o_command = Some ''/bin/ls'', o_args = None, o_name = None, o_coreId = None,
          o_promise = Some ''execution'', o_stdout = Some ''out'', o_stderr = None\<rparr>"
        "Some 4243"]
  by (simp add: agent_defs)

subsection \<open>Public views\<close>

lemma info_handles_public [simp]: "info_handles (toPublicProcInfo i) = []"
  by (simp add: info_handles_def toPublicProcInfo_def)

lemma dh_resolve:
  "deferred_handles d = [] \<Longrightarrow> value_handles v = [] \<Longrightarrow> deferred_handles (d_resolve v d) = []"
  by (simp add: deferred_handles_def d_resolve_def)

lemma dh_reject: "deferred_handles d = [] \<Longrightarrow> deferred_handles (d_reject e d) = []"
  by (simp add: deferred_handles_def d_reject_def)

lemma dh_notify:
  "deferred_handles d = [] \<Longrightarrow> value_handles v = [] \<Longrightarrow> deferred_handles (d_notify v d) = []"
  by (simp add: deferred_handles_def d_notify_def)

lemma published_iff:
  "published_handles w = [] \<longleftrightarrow>
     list_all (\<lambda>ch. deferred_handles (c_deferred ch) = []) (children w) \<and>
     list_all (\<lambda>s. deferred_handles (s_deferred s) = []) (sockets w) \<and>
     list_all (\<lambda>x. call_handles (snd x) = []) (rpcCalls w)"
  by (auto simp add: published_handles_def list_all_iff)

lemma list_all_update: "list_all P xs \<Longrightarrow> P y \<Longrightarrow> list_all P (xs[i := y])"
  using set_update_subset_insert [of xs i y] by (auto simp: list_all_iff)

lemma list_all_nth: "list_all P xs \<Longrightarrow> i < length xs \<Longrightarrow> P (xs ! i)"
  by (simp add: list_all_length)

lemma clean_connect: "published_handles w = [] \<Longrightarrow> published_handles (snd (connect opts w)) = []"
  by (simp add: published_iff connect_def Let_def deferred_handles_def)

lemma clean_socketConnect:
  "published_handles w = [] \<Longrightarrow> published_handles (socketConnect s w) = []"
  by (auto simp add: published_iff socketConnect_def onRawSocketConnection_def Let_def
      intro!: list_all_update dh_resolve dest: list_all_nth)

lemma clean_socketError:
  "published_handles w = [] \<Longrightarrow> published_handles (socketError s err w) = []"
  by (auto simp add: published_iff socketError_def Let_def
      intro!: list_all_update dh_reject dest: list_all_nth)

lemma clean_socketClose:
  "published_handles w = [] \<Longrightarrow> published_handles (socketClose s w) = []"
  by (auto simp add: published_iff socketClose_def onRawSocketClose_def Let_def
      intro!: list_all_update dest: list_all_nth)

lemma clean_muxError:
  "published_handles w = [] \<Longrightarrow> published_handles (muxError m err w) = []"
  by (simp add: published_iff muxError_def onMuxError_def)

lemma clean_ping:
  "published_handles w = [] \<Longrightarrow> published_handles (onPingInterval t w) = []"
  using clean_connect [of w no_connect_opts]
  by (auto simp add: onPingInterval_def published_iff split: option.splits)

lemma clean_kill:
  "published_handles w = [] \<Longrightarrow> published_handles (snd (kill k opts w)) = []"
  by (simp add: published_iff kill_def Let_def split: option.splits kill_result.splits)

lemma clean_upd_child:
  assumes "published_handles w = []"
    and "c < length (children w) \<Longrightarrow> deferred_handles (c_deferred (f (children w ! c))) = []"
  shows "published_handles (upd_child c f w) = []"
proof (cases "c < length (children w)")
  case True
  then show ?thesis
    using assms by (simp add: published_iff upd_child_def list_all_update)
next
  case False
  then show ?thesis
    using assms(1) by (simp add: published_iff upd_child_def not_less list_update_beyond)
qed

lemma clean_child_nth:
  "published_handles w = [] \<Longrightarrow> c < length (children w) \<Longrightarrow>
   deferred_handles (c_deferred (children w ! c)) = []"
  by (simp add: published_iff list_all_length)

lemma clean_procOnError:
  "published_handles w = [] \<Longrightarrow> published_handles (procOnError c err w) = []"
  by (simp add: procOnError_def clean_upd_child clean_child_nth)

lemma clean_pipeOnError:
  "published_handles w = [] \<Longrightarrow> published_handles (pipeOnError c out w) = []"
  by (simp add: pipeOnError_def clean_upd_child clean_child_nth)

lemma clean_spawnNextTick:
  "published_handles w = [] \<Longrightarrow> published_handles (spawnNextTick c w) = []"
  by (simp add: spawnNextTick_def clean_upd_child clean_child_nth dh_notify)

lemma clean_procOnClose:
  assumes "published_handles w = []"
  shows "published_handles (procOnClose c cd w) = []"
proof (cases "c < length (children w) \<and> \<not> c_closed (children w ! c)")
  case False
  then show ?thesis using assms by (auto simp: procOnClose_def)
next
  case True
  then have d: "deferred_handles (c_deferred (children w ! c)) = []"
    using assms by (simp add: clean_child_nth)
  show ?thesis
    using assms True d
    by (simp add: procOnClose_def Let_def published_iff list_all_update dh_resolve dh_reject
        split: option.splits)
qed

lemma clean_frame:
  "published_handles w = [] \<Longrightarrow> children w' = children w \<Longrightarrow> sockets w' = sockets w \<Longrightarrow>
   rpcCalls w' = rpcCalls w \<Longrightarrow> published_handles w' = []"
  by (simp add: published_handles_def)

lemma spawn_launched_children:
  "\<exists>ch. children (snd (spawn_launched pd nm mode opts w)) = children w @ [ch] \<and>
        deferred_handles (c_deferred ch) = []"
  "sockets (snd (spawn_launched pd nm mode opts w)) = sockets w"
  "rpcCalls (snd (spawn_launched pd nm mode opts w)) = rpcCalls w"
  by (simp_all add: spawn_launched_def Let_def upd_child_def deferred_handles_def d_resolve_def
      toPublicProcInfo_def info_handles_def
      split: option.splits sum.splits prod.splits)

lemma clean_spawn_launched:
  assumes "published_handles w = []"
  shows "published_handles (snd (spawn_launched pd nm mode opts w)) = []"
proof -
  obtain ch where
    "children (snd (spawn_launched pd nm mode opts w)) = children w @ [ch]"
    "deferred_handles (c_deferred ch) = []"
    using spawn_launched_children(1) by blast
  then show ?thesis
    using assms by (simp add: published_iff spawn_launched_children(2,3))
qed

lemma clean_spawn: "published_handles w = [] \<Longrightarrow> published_handles (snd (spawn l opts w)) = []"
proof -
  assume a: "published_handles w = []"
  have b: "published_handles (w\<lparr>osSpawns := x\<rparr>) = []" for x
    using a by (rule clean_frame) simp_all
  show ?thesis
    by (simp add: spawn_def Let_def a b clean_spawn_launched split: launch.splits)
qed

lemma clean_exec: "published_handles w = [] \<Longrightarrow> published_handles (exec e w) = []"
  by (cases e)
     (simp_all add: clean_connect clean_socketConnect clean_socketError clean_socketClose
        clean_muxError clean_ping clean_spawn clean_kill clean_procOnError
        clean_procOnClose clean_spawnNextTick clean_pipeOnError)

lemma clean_run: "published_handles w = [] \<Longrightarrow> published_handles (run evs w) = []"
  unfolding run_def by (induction evs arbitrary: w) (simp_all add: clean_exec)

lemma clean_init: "published_handles (PMNode nopts p) = []"
  by (simp add: published_handles_def PMNode_def)

lemma kill_clean:
  "(case fst (kill k opts w) of
      KillReturned st \<Rightarrow> pstate_handles st
    | KillThrew e \<Rightarrow> []) = []"
  by (simp add: kill_def Let_def split: option.splits kill_result.splits)

lemma answers_clean: "concat (map (\<lambda>x. info_handles (fst x)) (answers f ps)) = []"
  by (induction ps) (auto split: sum.splits)

lemma getProcesses_clean: "pstate_handles (getProcesses f arrival w) = []"
  by (simp add: getProcesses_def answers_clean split: option.splits)

lemma spawn_promise:
  "spawn l opts w = (Returned pr, w') \<Longrightarrow>
   (\<exists>e. pr = Q_new (VError e)) \<or>
   (pr = SpawnPromise (length (children w)) \<and> length (children w) < length (children w'))"
  by (auto simp add: spawn_def spawn_launched_def Let_def upd_child_def
      split: if_splits launch.splits option.splits sum.splits prod.splits)

lemma spawn_clean:
  assumes "published_handles w = []"
  shows "(case spawn l opts w of
            (Returned pr, w') \<Rightarrow> pstate_handles (promise_state w' pr)
          | (Threw e, w') \<Rightarrow> []) = []"
proof (cases "spawn l opts w")
  case (Pair out w')
  show ?thesis
  proof (cases out)
    case (Threw e)
    with Pair show ?thesis by simp
  next
    case (Returned pr)
    have "published_handles w' = []"
      using clean_spawn [OF assms, of l opts] Pair by simp
    then have "c < length (children w') \<Longrightarrow>
               pstate_handles (d_state (c_deferred (children w' ! c))) = []" for c
      using clean_child_nth [of w' c] by (simp add: deferred_handles_def)
    then show ?thesis
      using spawn_promise [of l opts w pr w'] Pair Returned by auto
  qed
qed

text \<open>
  C9. The public view of any procInfo object holds no process handle. After any run of the
  agent from its construction, no handle is held by anything published: the state and
  the progress values of every promise \<open>spawn\<close> and \<open>connect\<close> returned, and the
  payload of every RPC call issued (\<open>onProcessEnd\<close> among them). In the world reached,
  the promise a further \<open>spawn\<close> returns, the promise \<open>kill\<close> returns and the promise of
  \<open>getProcesses\<close> (whatever the usage lookup answers, in whatever order) hold no handle
  either.
\<close>
theorem public_views_hide_handle:
  "info_handles (toPublicProcInfo i) = [] \<and>
   published_handles (run evs (PMNode nopts p)) = [] \<and>
   (case spawn l sopts (run evs (PMNode nopts p)) of
      (Returned pr, w') \<Rightarrow> pstate_handles (promise_state w' pr)
    | (Threw e, w') \<Rightarrow> []) = [] \<and>
   (case fst (kill k kopts (run evs (PMNode nopts p))) of
      KillReturned st \<Rightarrow> pstate_handles st
    | KillThrew e \<Rightarrow> []) = [] \<and>
   pstate_handles (getProcesses f arrival (run evs (PMNode nopts p))) = []"
  by (simp only: info_handles_public clean_run [OF clean_init] spawn_clean kill_clean
      getProcesses_clean simp_thms)


theorem public_views_hide_handle_witness:
  "rpcCalls (run
      [Connect no_connect_opts, SocketConnect 0,
       Spawn (Launched (Some 4243))
         \<lparr>o_command = Some ''/bin/ls'', o_args = None, o_name = None, o_coreId = None,
          o_promise = Some ''execution'', o_stdout = None, o_stderr = None\<rparr>,
       NextTick 0, ProcClose 0 (Exit 0)]
      (PMNode \<lparr>o_serverHost = ''master'', o_serverPort = 9000\<rparr> 4242)) =
     [(0, OnProcessEnd \<lparr>name = ''ls'', pid = Some 4243, u_proc = None, protected = False,
        coreId = None, promise = Some ''execution'', code = Some (Exit 0), error = None\<rparr>)] \<and>
   published_handles (run
      [Connect no_connect_opts, SocketConnect 0,
       Spawn (Launched (Some 4243))
         \<lparr>o_command = Some ''/bin/ls'', o_args = None, o_name = None, o_coreId = None,
          o_promise = Some ''execution'', o_stdout = None, o_stderr = None\<rparr>,
       NextTick 0, ProcClose 0 (Exit 0)]
      (PMNode \<lparr>o_serverHost = ''master'', o_serverPort = 9000\<rparr> 4242)) = [] \<and>
   getProcesses (\<lambda>x. Inr (1024, 3)) [0] (run
      [Connect no_connect_opts, SocketConnect 0,
       Spawn (Launched (Some 4243))
         \<lparr>o_command = Some ''/bin/ls'', o_args = None, o_name = None, o_coreId = None,
          o_promise = Some ''execution'', o_stdout = None, o_stderr = None\<rparr>,
       NextTick 0, ProcClose 0 (Exit 0)]
      (PMNode \<lparr>o_serverHost = ''master'', o_serverPort = 9000\<rparr> 4242)) =
     Fulfilled (VProcesses
       [(\<lparr>name = ''pm-node'', pid = Some 4242, u_proc = None, protected = True,
          coreId = None, promise = None, code = None, error = None\<rparr>, (1024, 3))])"
  using public_views_hide_handle
    [of "snd (selfInfo 4242)"
        "[Connect no_connect_opts, SocketConnect 0,
          Spawn (Launched (Some 4243))
            \<lparr>o_command = Some ''/bin/ls'', o_args = None, o_name = None, o_coreId = None,
             o_promise = Some ''execution'', o_stdout = None, o_stderr = None\<rparr>,
          NextTick 0, ProcClose 0 (Exit 0)]"
        "\<lparr>o_serverHost = ''master'', o_serverPort = 9000\<rparr>" 4242
        "Launched None"
        "\<lparr>o_command = Some ''/bin/ls'', o_args = None, o_name = None, o_coreId = None,
          o_promise = None, o_stdout = None, o_stderr = None\<rparr>"
        "KillReturns True" "\<lparr>k_pid = Some 4243, k_signal = None\<rparr>"
        "\<lambda>x. Inr (1024, 3)" "[0]"]
  by (simp add: agent_defs)

subsection \<open>The promise of spawn in execution mode\<close>

lemma awaiting_frame:
  "awaiting c nm r le w \<Longrightarrow> children w' = children w \<Longrightarrow> awaiting c nm r le w'"
  by (simp add: awaiting_def)













subsection \<open>The notification of a process end\<close>

text \<open>
  C5. The 'close' listener decides whether to call \<open>onProcessEnd\<close>, and on which
  channel, by \<open>masterRpc\<close>: the value \<open>this.rpc\<close> had when \<open>spawn\<close> ran. First run: a
  process is spawned by an agent that is not connected, then the agent connects and the
  socket reports 'connect'; a session exists (\<open>rawSocket\<close>, \<open>mux\<close> and \<open>rpc\<close> are
  set) when the child closes, the record is removed, and no RPC call is issued. Second
  run: the agent is connected when it spawns, the socket closes, the heartbeat timer
  reconnects and the new socket reports 'connect'; the session that exists when the child
  closes has channel 1, the record is removed, and the one call issued went to channel 0,
  the channel of the session that is gone.
\<close>
theorem onProcessEnd_uses_spawn_time_rpc:
  "rpc (run [Spawn (Launched (Some 4243))
          \<lparr>o_command = Some ''/bin/ls'', o_args = None, o_name = None, o_coreId = None,
           o_promise = None, o_stdout = None, o_stderr = None\<rparr>,
        Connect no_connect_opts, SocketConnect 0] (PMNode nopts p)) = Some 0 \<and>
   mux (run [Spawn (Launched (Some 4243))
          \<lparr>o_command = Some ''/bin/ls'', o_args = None, o_name = None, o_coreId = None,
           o_promise = None, o_stdout = None, o_stderr = None\<rparr>,
        Connect no_connect_opts, SocketConnect 0] (PMNode nopts p)) = Some 0 \<and>
   rawSocket (run [Spawn (Launched (Some 4243))
          \<lparr>o_command = Some ''/bin/ls'', o_args = None, o_name = None, o_coreId = None,
           o_promise = None, o_stdout = None, o_stderr = None\<rparr>,
        Connect no_connect_opts, SocketConnect 0] (PMNode nopts p)) = Some 0 \<and>
   rpcCalls (procOnClose 0 (Exit 0)
     (run [Spawn (Launched (Some 4243))
          \<lparr>o_command = Some ''/bin/ls'', o_args = None, o_name = None, o_coreId = None,
           o_promise = None, o_stdout = None, o_stderr = None\<rparr>,
        Connect no_connect_opts, SocketConnect 0] (PMNode nopts p))) = [] \<and>
   processes (procOnClose 0 (Exit 0)
     (run [Spawn (Launched (Some 4243))
          \<lparr>o_command = Some ''/bin/ls'', o_args = None, o_name = None, o_coreId = None,
           o_promise = None, o_stdout = None, o_stderr = None\<rparr>,
        Connect no_connect_opts, SocketConnect 0] (PMNode nopts p))) = [selfInfo p] \<and>
   rpc (run [Connect no_connect_opts, SocketConnect 0,
        Spawn (Launched (Some 4243))
          \<lparr>o_command = Some ''/bin/ls'', o_args = None, o_name = None, o_coreId = None,
           o_promise = None, o_stdout = None, o_stderr = None\<rparr>,
        SocketClose 0, PingInterval 17, SocketConnect 1] (PMNode nopts p)) = Some 1 \<and>
   mux (run [Connect no_connect_opts, SocketConnect 0,
        Spawn (Launched (Some 4243))
          \<lparr>o_command = Some ''/bin/ls'', o_args = None, o_name = None, o_coreId = None,
           o_promise = None, o_stdout = None, o_stderr = None\<rparr>,
        SocketClose 0, PingInterval 17, SocketConnect 1] (PMNode nopts p)) = Some 1 \<and>
   rawSocket (run [Connect no_connect_opts, SocketConnect 0,
        Spawn (Launched (Some 4243))
          \<lparr>o_command = Some ''/bin/ls'', o_args = None, o_name = None, o_coreId = None,
           o_promise = None, o_stdout = None, o_stderr = None\<rparr>,
        SocketClose 0, PingInterval 17, SocketConnect 1] (PMNode nopts p)) = Some 1 \<and>
   rpcCalls (procOnClose 0 (Exit 0)
     (run [Connect no_connect_opts, SocketConnect 0,
        Spawn (Launched (Some 4243))
          \<lparr>o_command = Some ''/bin/ls'', o_args = None, o_name = None, o_coreId = None,
           o_promise = None, o_stdout = None, o_stderr = None\<rparr>,
        SocketClose 0, PingInterval 17, SocketConnect 1] (PMNode nopts p))) =
     [(0, OnProcessEnd \<lparr>name = ''ls'', pid = Some 4243, u_proc = None, protected = False,
        coreId = None, promise = Some ''creation'', code = Some (Exit 0), error = None\<rparr>)] \<and>
   processes (procOnClose 0 (Exit 0)
     (run [Connect no_connect_opts, SocketConnect 0,
        Spawn (Launched (Some 4243))
          \<lparr>o_command = Some ''/bin/ls'', o_args = None, o_name = None, o_coreId = None,
           o_promise = None, o_stdout = None, o_stderr = None\<rparr>,
        SocketClose 0, PingInterval 17, SocketConnect 1] (PMNode nopts p))) = [selfInfo p]"
  by (simp add: agent_defs)

theorem onProcessEnd_uses_spawn_time_rpc_witness:
  "rpc (run [Spawn (Launched (Some 4243))
          \<lparr>o_command = Some ''/bin/ls'', o_args = None, o_name = None, o_coreId = None,
           o_promise = None, o_stdout = None, o_stderr = None\<rparr>,
        Connect no_connect_opts, SocketConnect 0]
        (PMNode \<lparr>o_serverHost = ''master'', o_serverPort = 9000\<rparr> 4242)) = Some 0 \<and>
   rpcCalls (procOnClose 0 (Exit 0)
     (run [Spawn (Launched (Some 4243))
          \<lparr>o_command = Some ''/bin/ls'', o_args = None, o_name = None, o_coreId = None,
           o_promise = None, o_stdout = None, o_stderr = None\<rparr>,
        Connect no_connect_opts, SocketConnect 0]
        (PMNode \<lparr>o_serverHost = ''master'', o_serverPort = 9000\<rparr> 4242))) = []"
  using onProcessEnd_uses_spawn_time_rpc
    [of "\<lparr>o_serverHost = ''master'', o_serverPort = 9000\<rparr>" 4242]
  by simp

end
